theory Spec2Isabelle
  imports Complex_Main "HOL-Library.Multiset" "HOL-Library.Char_ord" "HOL-Library.List_Lexorder"
begin

section \<open>Python values\<close>

text \<open>
  The pipeline computes with Python floats read from pandas frames.  A float is modelled
  as an exact real or the not-a-number value that pandas uses for an empty cell; rounding
  error of the binary representation and the infinities are outside the model.
\<close>

datatype pyfloat = Fin real | NaN

datatype error =
    ZeroDivisionError
  | ValueError string
  | KeyError "string list"
  | RuntimeError string
  | AttributeError string

text \<open>Truth value of a float: only zero is false; NaN is true.\<close>

fun truthy :: "pyfloat \<Rightarrow> bool" where
  "truthy (Fin x) = (x \<noteq> 0)"
| "truthy NaN = True"

text \<open>\<^verbatim>\<open>x or d\<close>\<close>

definition py_or :: "pyfloat \<Rightarrow> pyfloat \<Rightarrow> pyfloat" where
  "py_or x d = (if truthy x then x else d)"

text \<open>Comparisons: every comparison with NaN is false.\<close>

fun pf_less :: "pyfloat \<Rightarrow> pyfloat \<Rightarrow> bool" where
  "pf_less (Fin a) (Fin b) = (a < b)"
| "pf_less _ _ = False"

fun pf_eq :: "pyfloat \<Rightarrow> pyfloat \<Rightarrow> bool" where
  "pf_eq (Fin a) (Fin b) = (a = b)"
| "pf_eq _ _ = False"

text \<open>Division of Python floats raises on a zero divisor, whatever the dividend.\<close>

fun pf_div :: "pyfloat \<Rightarrow> pyfloat \<Rightarrow> error + pyfloat" where
  "pf_div (Fin a) (Fin b) = (if b = 0 then Inl ZeroDivisionError else Inr (Fin (a / b)))"
| "pf_div NaN (Fin b) = (if b = 0 then Inl ZeroDivisionError else Inr NaN)"
| "pf_div _ NaN = Inr NaN"

text \<open>\<^verbatim>\<open>round(x, n)\<close> on exact values: to the nearest multiple of \<open>10^-n\<close>, ties to even.\<close>

definition round_half_even :: "real \<Rightarrow> int" where
  "round_half_even x =
     (let f = \<lfloor>x\<rfloor>; d = x - of_int f
      in if d < 1 / 2 then f else if 1 / 2 < d then f + 1 else if even f then f else f + 1)"

definition py_round :: "nat \<Rightarrow> real \<Rightarrow> real" where
  "py_round n x = of_int (round_half_even (x * 10 ^ n)) / 10 ^ n"

fun pf_round :: "nat \<Rightarrow> pyfloat \<Rightarrow> pyfloat" where
  "pf_round n (Fin x) = Fin (py_round n x)"
| "pf_round n NaN = NaN"

text \<open>\<^verbatim>\<open>int(x)\<close> truncates towards zero and raises on NaN.\<close>

fun py_int :: "pyfloat \<Rightarrow> error + int" where
  "py_int (Fin x) = Inr (if 0 \<le> x then \<lfloor>x\<rfloor> else \<lceil>x\<rceil>)"
| "py_int NaN = Inl (ValueError ''cannot convert float NaN to integer'')"

text \<open>\<^verbatim>\<open>max(xs)\<close> and \<^verbatim>\<open>min(xs)\<close> of a non-empty list; every call site guards the empty list.\<close>

definition py_max :: "'a::linorder list \<Rightarrow> 'a" where
  "py_max xs = fold max (tl xs) (hd xs)"

definition py_min :: "'a::linorder list \<Rightarrow> 'a" where
  "py_min xs = fold min (tl xs) (hd xs)"

text \<open>\<^verbatim>\<open>s.strip()\<close>: ASCII white space removed at both ends.\<close>

definition is_space :: "char \<Rightarrow> bool" where
  "is_space c = (c \<in> set [CHR 0x20, CHR 0x09, CHR 0x0A, CHR 0x0B, CHR 0x0C, CHR 0x0D,
                           CHR 0x1C, CHR 0x1D, CHR 0x1E, CHR 0x1F])"

definition strip :: "string \<Rightarrow> string" where
  "strip s = rev (dropWhile is_space (rev (dropWhile is_space s)))"

section \<open>Data frames\<close>

text \<open>
  A row of a pandas frame maps column labels to cells.  Text columns hold a string or the
  missing marker; numeric columns hold a float, NaN when the cell is empty.  A label
  outside the domain of both maps is a column the row does not have.
\<close>

datatype tcell = Txt string | TNaN

record row =
  tcells :: "string \<rightharpoonup> tcell"
  ncells :: "string \<rightharpoonup> pyfloat"

text \<open>\<^verbatim>\<open>row.get(c, d)\<close> on a numeric and on a text column.\<close>

definition get_num :: "row \<Rightarrow> string \<Rightarrow> pyfloat \<Rightarrow> pyfloat" where
  "get_num r c d = (case ncells r c of None \<Rightarrow> d | Some v \<Rightarrow> v)"

definition get_txt :: "row \<Rightarrow> string \<Rightarrow> tcell \<Rightarrow> tcell" where
  "get_txt r c d = (case tcells r c of None \<Rightarrow> d | Some v \<Rightarrow> v)"

text \<open>\<^verbatim>\<open>str(v)\<close> of a text cell: the missing marker prints as \<^verbatim>\<open>nan\<close>.\<close>

fun py_str :: "tcell \<Rightarrow> string" where
  "py_str (Txt s) = s"
| "py_str TNaN = ''nan''"

section \<open>velocity\_trends\_integration.py\<close>

record prime_item =
  prime_item_nbr :: "pyfloat option"
  size_descr :: string
  item_status :: string
  lw_pos_qty :: pyfloat
  lw_inv_units :: pyfloat
  lw_inv_retail :: pyfloat
  wos :: pyfloat
  curr_valid_stores :: int
  unit_retail :: pyfloat
  unit_cost :: pyfloat


text \<open>
  The loop body of \<^verbatim>\<open>map_velocity_to_styles\<close>, one function per computed value.
  \<^verbatim>\<open>row.get(c, 0) or d\<close> keeps a NaN cell, which is true as a truth value.
\<close>

definition row_lw_pos_qty :: "row \<Rightarrow> pyfloat" where
  "row_lw_pos_qty r = py_or (get_num r ''LW POS Qty'' (Fin 0)) (Fin 0)"

definition row_lw_inv_retail :: "row \<Rightarrow> pyfloat" where
  "row_lw_inv_retail r = py_or (get_num r ''Total LW Str Inv Retail'' (Fin 0)) (Fin 0)"

definition row_lw_avg_retail :: "row \<Rightarrow> pyfloat" where
  "row_lw_avg_retail r = py_or (get_num r ''LW Avg Retail'' (Fin 0)) (Fin 1)"

definition row_lw_inv_units :: "row \<Rightarrow> error + pyfloat" where
  "row_lw_inv_units r =
     (if pf_less (Fin 0) (row_lw_avg_retail r)
      then pf_div (row_lw_inv_retail r) (row_lw_avg_retail r)
      else Inr (Fin 0))"

definition row_wos :: "row \<Rightarrow> error + pyfloat" where
  "row_wos r =
     (case row_lw_inv_units r of
        Inl e \<Rightarrow> Inl e
      | Inr units \<Rightarrow>
          if pf_less (Fin 0) (row_lw_pos_qty r)
          then pf_div units (row_lw_pos_qty r)
          else Inr (Fin 0))"

definition prime_item_record :: "row \<Rightarrow> error + prime_item" where
  "prime_item_record r =
     (case row_lw_inv_units r of
        Inl e \<Rightarrow> Inl e
      | Inr units \<Rightarrow>
     (case row_wos r of
        Inl e \<Rightarrow> Inl e
      | Inr w \<Rightarrow>
     (case py_int (py_or (get_num r ''Curr Valid Stores'' (Fin 0)) (Fin 0)) of
        Inl e \<Rightarrow> Inl e
      | Inr stores \<Rightarrow>
          Inr \<lparr> prime_item_nbr = ncells r ''Prime Item Nbr'',
                size_descr = strip (py_str (get_txt r ''Prime Size Description'' (Txt []))),
                item_status = strip (py_str (get_txt r ''Item Status'' (Txt []))),
                lw_pos_qty = row_lw_pos_qty r,
                lw_inv_units = units,
                lw_inv_retail = row_lw_inv_retail r,
                wos = pf_round 1 w,
                curr_valid_stores = stores,
                unit_retail = py_or (get_num r ''Unit Retail'' (Fin 0)) (Fin 0),
                unit_cost = py_or (get_num r ''Unit Cost'' (Fin 0)) (Fin 0) \<rparr>)))"

text \<open>\<^verbatim>\<open>pd.isna\<close> of a \<^verbatim>\<open>str\<close> object is false, whatever the string.\<close>

definition pd_isna_str :: "string \<Rightarrow> bool" where
  "pd_isna_str s = False"

definition row_style_color :: "row \<Rightarrow> string" where
  "row_style_color r = strip (py_str (get_txt r ''Vndr Category 2'' (Txt [])))"

type_synonym style_map = "string \<rightharpoonup> prime_item list"

definition map_velocity_row :: "style_map \<Rightarrow> row \<Rightarrow> error + style_map" where
  "map_velocity_row style_map r =
     (let style_color = row_style_color r
      in if style_color = [] \<or> pd_isna_str style_color then Inr style_map
         else (case prime_item_record r of
                 Inl e \<Rightarrow> Inl e
               | Inr item \<Rightarrow>
                   Inr (style_map(style_color \<mapsto>
                     (case style_map style_color of None \<Rightarrow> [] | Some ps \<Rightarrow> ps)
                       @ [item]))))"

fun map_velocity_rows :: "style_map \<Rightarrow> row list \<Rightarrow> error + style_map" where
  "map_velocity_rows style_map [] = Inr style_map"
| "map_velocity_rows style_map (r # rs) =
     (case map_velocity_row style_map r of
        Inl e \<Rightarrow> Inl e
      | Inr style_map' \<Rightarrow> map_velocity_rows style_map' rs)"

definition map_velocity_to_styles :: "row list \<Rightarrow> error + style_map" where
  "map_velocity_to_styles velocity_df = map_velocity_rows Map.empty velocity_df"

record size_analysis =
  total_prime_items :: nat
  active_items :: nat
  total_stores :: int
  avg_wos :: real
  max_wos :: real
  min_wos :: real
  productive_sizes :: nat
  dead_sizes :: nat
  size_efficiency_pct :: real

text \<open>
  A SKU record as \<^verbatim>\<open>build_sku_master\<close> emits it, with the three keys that the size
  enrichment adds; \<open>None\<close> in one of those is a key the dictionary does not have.
\<close>

record sku_record =
  sku :: string
  fineline :: tcell
  description :: tcell
  color :: tcell
  gender :: tcell
  category :: tcell
  sub_category :: tcell
  aur_ty :: real
  aur_ly :: real
  sales_units_ytd :: real
  sales_dollars_ytd :: real
  sales_units_lw :: real
  sales_units_lwly :: real
  sales_dollars_lw :: real
  sales_dollars_lwly :: real
  inventory_units_lw :: real
  inventory_dollars_lw :: real
  sell_through_ty :: real
  sell_through_ly :: real
  st_change :: real
  unit_pct_change :: real
  dollar_pct_change :: real
  sku_wos :: real
  tier :: string
  sales_pct_of_total :: real
  cumulative_sales_pct :: real
  inventory_pct_of_total :: real
  store_count :: "int option"
  size_analysis :: "size_analysis option"
  prime_items :: "prime_item list option"

fun fin_value :: "pyfloat \<Rightarrow> real" where
  "fin_value (Fin x) = x"
| "fin_value NaN = 0"

definition wos_values :: "prime_item list \<Rightarrow> real list" where
  "wos_values ps = map (\<lambda>p. fin_value (wos p)) (filter (\<lambda>p. pf_less (Fin 0) (wos p)) ps)"

definition productive :: "prime_item \<Rightarrow> bool" where
  "productive p = (pf_less (Fin 0) (lw_pos_qty p) \<and> pf_less (wos p) (Fin 20))"

definition dead :: "prime_item \<Rightarrow> bool" where
  "dead p = (pf_less (Fin 30) (wos p)
              \<or> (pf_eq (lw_pos_qty p) (Fin 0) \<and> pf_less (Fin 0) (lw_inv_units p)))"

text \<open>
  The analysis of the size records of one SKU.  \<^verbatim>\<open>total_sales\<close> is computed in the source
  and never read; it is left out.
\<close>

definition size_analysis_of :: "prime_item list \<Rightarrow> size_analysis" where
  "size_analysis_of ps =
     (let total = length ps;
          active = filter (\<lambda>p. item_status p = ''A'') ps;
          stores = (if ps \<noteq> [] then py_max (map curr_valid_stores ps) else 0);
          ws = wos_values ps;
          avg = (if ws \<noteq> [] then sum_list ws / real (length ws) else 0);
          mx = (if ws \<noteq> [] then py_max ws else 0);
          mn = (if ws \<noteq> [] then py_min ws else 0);
          prods = filter productive ps;
          deads = filter dead ps
      in \<lparr> total_prime_items = total,
           active_items = length active,
           total_stores = stores,
           avg_wos = py_round 1 avg,
           max_wos = py_round 1 mx,
           min_wos = py_round 1 mn,
           productive_sizes = length prods,
           dead_sizes = length deads,
           size_efficiency_pct =
             (if 0 < total
              then py_round 1 (real (length prods) / real total * 100) else 0) \<rparr>)"

definition enrich_sku :: "style_map \<Rightarrow> sku_record \<Rightarrow> sku_record" where
  "enrich_sku style_map s =
     (let s0 = s\<lparr>store_count := Some 0\<rparr>
      in case style_map (sku s) of
           None \<Rightarrow> s0
         | Some ps \<Rightarrow>
             s0\<lparr>size_analysis := Some (size_analysis_of ps),
                store_count := Some (total_stores (size_analysis_of ps)),
                prime_items := Some ps\<rparr>)"

definition enrich_sku_master_with_size_analysis ::
    "sku_record list \<Rightarrow> style_map \<Rightarrow> sku_record list" where
  "enrich_sku_master_with_size_analysis sku_master style_map = map (enrich_sku style_map) sku_master"

record recommendation =
  rec_sku :: string
  rec_fineline :: tcell
  rec_tier :: string
  rec_total_sizes :: nat
  rec_dead_sizes :: nat
  rec_size_efficiency_pct :: real
  rec_recommendation :: string
  rec_priority :: string
  rec_expected_impact :: string

fun str_nat :: "nat \<Rightarrow> string" where
  "str_nat n = (if n < 10 then [char_of (48 + n)] else str_nat (n div 10) @ [char_of (48 + n mod 10)])"

definition recommend :: "sku_record \<Rightarrow> recommendation option" where
  "recommend s =
     (case size_analysis s of
        None \<Rightarrow> None
      | Some a \<Rightarrow>
          if 0 < dead_sizes a \<and> size_efficiency_pct a < 70
          then Some \<lparr> rec_sku = sku s,
                      rec_fineline = fineline s,
                      rec_tier = tier s,
                      rec_total_sizes = total_prime_items a,
                      rec_dead_sizes = dead_sizes a,
                      rec_size_efficiency_pct = size_efficiency_pct a,
                      rec_recommendation = ''Optimize size curve - '' @ str_nat (dead_sizes a)
                        @ '' dead sizes out of '' @ str_nat (total_prime_items a),
                      rec_priority = (if 3 < dead_sizes a then ''high'' else ''medium''),
                      rec_expected_impact = ''Reduce inventory bloat, improve WOS'' \<rparr>
          else None)"

definition generate_size_recommendations :: "sku_record list \<Rightarrow> recommendation list" where
  "generate_size_recommendations sku_master = List.map_filter recommend sku_master"


section \<open>austin\_insights.py\<close>

text \<open>\<^verbatim>\<open>_yoy_pct\<close>; the two local \<^verbatim>\<open>yoy_pct\<close> helpers of the module have the same body.\<close>

definition yoy_pct :: "real \<Rightarrow> real \<Rightarrow> real" where
  "yoy_pct current ly = (if ly = 0 then 0 else (current - ly) / ly * 100)"

section \<open>etl\_comprehensive\_v5.py\<close>

text \<open>
  A frame has its column labels and its rows.  The loaders strip the labels when they
  read a sheet, so the second stripping at the head of \<^verbatim>\<open>build_fineline_rollup\<close>
  changes nothing and is left out.
\<close>

record frame =
  columns :: "string list"
  rows :: "row list"

text \<open>\<^verbatim>\<open>_safe_float(x)\<close> with its default \<open>0.0\<close>: NaN becomes the default.\<close>

fun safe_float :: "pyfloat \<Rightarrow> real" where
  "safe_float (Fin x) = x"
| "safe_float NaN = 0"

subsection \<open>Grouping and joining\<close>

text \<open>
  \<^verbatim>\<open>groupby(k)\<close> drops the rows whose key is missing and orders the groups by key;
  \<^verbatim>\<open>sum\<close> skips NaN cells.  A label that the frame does not have raises \<^verbatim>\<open>KeyError\<close>,
  which carries the missing labels.
\<close>

definition key_of :: "string \<Rightarrow> row \<Rightarrow> string option" where
  "key_of k r = (case tcells r k of Some (Txt g) \<Rightarrow> Some g | Some TNaN \<Rightarrow> None | None \<Rightarrow> None)"

definition group_keys :: "string \<Rightarrow> row list \<Rightarrow> string list" where
  "group_keys k rs = sort (remdups (List.map_filter (key_of k) rs))"

definition group_rows :: "string \<Rightarrow> string \<Rightarrow> row list \<Rightarrow> row list" where
  "group_rows k g rs = filter (\<lambda>r. key_of k r = Some g) rs"

definition col_sum :: "string \<Rightarrow> row list \<Rightarrow> real" where
  "col_sum c rs = sum_list (map (\<lambda>r. safe_float (get_num r c NaN)) rs)"

definition groupby_sum :: "string \<Rightarrow> (string \<times> string) list \<Rightarrow> frame \<Rightarrow> error + row list" where
  "groupby_sum k cols df =
     (if k \<notin> set (columns df) then Inl (KeyError [k])
      else case filter (\<lambda>c. c \<notin> set (columns df)) (map fst cols) of
             [] \<Rightarrow>
               Inr (map (\<lambda>g. \<lparr> tcells = [k \<mapsto> Txt g],
                               ncells = map_of (map (\<lambda>(c, c'). (c', Fin (col_sum c (group_rows k g (rows df))))) cols) \<rparr>)
                      (group_keys k (rows df)))
           | m # ms \<Rightarrow> Inl (KeyError (sort (m # ms))))"

text \<open>
  \<^verbatim>\<open>left.merge(right, on=k, how='left')\<close>, where \<open>tcols\<close> and \<open>ncols\<close> are the text and
  numeric columns of the right frame besides the key: a left row without a partner
  keeps its place and gets missing cells.
\<close>

definition merge_left :: "string \<Rightarrow> string list \<Rightarrow> string list \<Rightarrow> row list \<Rightarrow> row list \<Rightarrow> row list" where
  "merge_left k tcols ncols left right =
     concat (map (\<lambda>l.
       case filter (\<lambda>r. key_of k r \<noteq> None \<and> key_of k r = key_of k l) right of
         [] \<Rightarrow> [\<lparr> tcells = tcells l ++ map_of (map (\<lambda>c. (c, TNaN)) tcols),
                  ncells = ncells l ++ map_of (map (\<lambda>c. (c, NaN)) ncols) \<rparr>]
       | m # ms \<Rightarrow> map (\<lambda>r. \<lparr> tcells = tcells l ++ (tcells r |` set tcols),
                                ncells = ncells l ++ (ncells r |` set ncols) \<rparr>) (m # ms)) left)"

subsection \<open>Output records and the state of a run\<close>

record fineline_record =
  fl_fineline :: string
  fl_sales_units_lw :: real
  fl_sales_units_lwly :: real
  fl_sales_dollars_lw :: real
  fl_sales_dollars_lwly :: real
  fl_inventory_units_lw :: real
  fl_inventory_dollars_lw :: real
  fl_sales_units_ytd :: real
  fl_sales_dollars_ytd :: real
  fl_wos :: real

record weekly_summary =
  wk_sales_units_lw :: real
  wk_sales_units_lwly :: real
  wk_sales_dollars_lw :: real
  wk_sales_dollars_lwly :: real
  wk_inventory_units_lw :: real
  wk_inventory_dollars_lw :: real
  wk_units_delta :: real
  wk_dollars_delta :: real
  wk_units_pct_delta :: real
  wk_dollars_pct_delta :: real
  wk_wos :: real

record metrics =
  tier_a_count :: nat
  tier_b_count :: nat
  tier_c_count :: nat
  metrics_avg_wos :: real

record meta =
  generated_at :: string
  source_pos_file :: string
  source_ladder_file :: string
  source_velocity_file :: string
  meta_metrics :: metrics

text \<open>What a JSON file of the output directory holds.\<close>

datatype json =
    JSkuMaster "sku_record list"
  | JFinelineRollup "fineline_record list"
  | JWeeklySummary "weekly_summary option"
  | JMeta "meta option"
  | JEmptyList

record etl_state =
  pos_file :: string
  ladder_file :: string
  velocity_file :: string
  pos_lw :: "frame option"
  pos_ytd :: "frame option"
  ladder :: "frame option"
  sku_master :: "sku_record list"
  fineline_rollup :: "fineline_record list"
  weekly_summary :: "weekly_summary option"
  seasonal_risk :: json
  action_items :: json
  meta :: "meta option"
  metrics :: "metrics option"
  tier_assignments_A :: "string set"
  tier_assignments_B :: "string set"
  tier_assignments_C :: "string set"
  files :: "string \<rightharpoonup> json"

subsection \<open>build\_sku\_master\<close>

definition lookup_tier :: "etl_state \<Rightarrow> string \<Rightarrow> string" where
  "lookup_tier s k =
     (if k \<in> tier_assignments_A s then ''A''
      else if k \<in> tier_assignments_B s then ''B''
      else if k \<in> tier_assignments_C s then ''C''
      else ''C'')"

definition ladder_text_cols :: "string list" where
  "ladder_text_cols = [''Fineline'', ''Item Description'', ''Color'', ''Gender'', ''Category'', ''Sub Category'']"

definition ladder_num_cols :: "string list" where
  "ladder_num_cols = [''AUR TY'', ''AUR LY'']"

text \<open>The frame \<^verbatim>\<open>sku_df\<close> before it is sorted: the three aggregations, the joins, the tier column.\<close>

definition build_sku_frame :: "etl_state \<Rightarrow> error + row list" where
  "build_sku_frame s =
     (case (pos_lw s, ladder s) of
        (None, _) \<Rightarrow> Inl (RuntimeError ''POS LW and Ladder data must be loaded before building SKU master.'')
      | (Some _, None) \<Rightarrow> Inl (RuntimeError ''POS LW and Ladder data must be loaded before building SKU master.'')
      | (Some lw, Some lad) \<Rightarrow>
     (case pos_ytd s of
        None \<Rightarrow> Inl (AttributeError ''groupby'')
      | Some y \<Rightarrow>
     (case groupby_sum ''WD Style/Color'' [(''Sales Retail $ 2025YTD'', ''sales_dollars_ytd'')] y of
        Inl e \<Rightarrow> Inl e
      | Inr ytd \<Rightarrow>
     (case groupby_sum ''WD Style/Color'' [(''Sales Units 2025YTD'', ''sales_units_ytd'')] y of
        Inl e \<Rightarrow> Inl e
      | Inr ytd_units \<Rightarrow>
     (case groupby_sum ''WD Style/Color''
             [(''Sales Units LW'', ''sales_units_lw''),
              (''Sales Units LWLY'', ''sales_units_lwly''),
              (''Sales Retail $ LW'', ''sales_dollars_lw''),
              (''Sales Retail $ LWLY'', ''sales_dollars_lwly''),
              (''Store On Hand Units LW'', ''inventory_units_lw''),
              (''Store On Hand Retail LW'', ''inventory_dollars_lw'')] lw of
        Inl e \<Rightarrow> Inl e
      | Inr lw_group \<Rightarrow>
          if ''WD Style/Color'' \<notin> set (columns lad) then Inl (KeyError [''WD Style/Color''])
          else
            let sku_df1 = merge_left ''WD Style/Color'' [] [''sales_dollars_ytd''] lw_group ytd;
                sku_df2 = merge_left ''WD Style/Color'' [] [''sales_units_ytd''] sku_df1 ytd_units;
                sku_df3 = merge_left ''WD Style/Color''
                            (filter (\<lambda>c. c \<in> set (columns lad)) ladder_text_cols)
                            (filter (\<lambda>c. c \<in> set (columns lad)) ladder_num_cols)
                            sku_df2 (rows lad)
            in Inr (map (\<lambda>r. r\<lparr>tcells := (tcells r)(''tier'' \<mapsto>
                        Txt (lookup_tier s (py_str (get_txt r ''WD Style/Color'' TNaN))))\<rparr>) sku_df3))))))"

text \<open>
  \<^verbatim>\<open>sort_values(by=c, ascending=False)\<close>: the rows with a value in descending order,
  then the rows with NaN.  The default sort of pandas does not promise an order among
  equal values; the model keeps them in their order of arrival.
\<close>

definition has_value :: "string \<Rightarrow> row \<Rightarrow> bool" where
  "has_value c r = (case get_num r c NaN of Fin x \<Rightarrow> True | NaN \<Rightarrow> False)"

definition sort_values_desc :: "string \<Rightarrow> row list \<Rightarrow> row list" where
  "sort_values_desc c rs =
     rev (sort_key (\<lambda>r. safe_float (get_num r c NaN)) (rev (filter (has_value c) rs)))
       @ filter (\<lambda>r. \<not> has_value c r) rs"

text \<open>The loop over the sorted frame; \<open>cumulative_sales\<close> is the running sum it carries.\<close>

fun sku_rows :: "real \<Rightarrow> real \<Rightarrow> real \<Rightarrow> row list \<Rightarrow> sku_record list" where
  "sku_rows total_sales_ytd total_inventory_lw cumulative_sales [] = []"
| "sku_rows total_sales_ytd total_inventory_lw cumulative_sales (r # rs) =
     (let dollars_ytd = safe_float (get_num r ''sales_dollars_ytd'' (Fin 0));
          units_lw = safe_float (get_num r ''sales_units_lw'' (Fin 0));
          inv_units_lw = safe_float (get_num r ''inventory_units_lw'' (Fin 0));
          inv_dollars_lw = safe_float (get_num r ''inventory_dollars_lw'' (Fin 0));
          w = (if 0 < units_lw then inv_units_lw / max units_lw (1 / 10000) else 0);
          share = (if 0 < total_sales_ytd \<and> 0 < dollars_ytd then dollars_ytd / total_sales_ytd else 0);
          cumulative_sales' = cumulative_sales + dollars_ytd;
          cumulative_share = (if 0 < total_sales_ytd then cumulative_sales' / total_sales_ytd else 0);
          inv_share = (if 0 < total_inventory_lw \<and> 0 < inv_dollars_lw
                       then inv_dollars_lw / total_inventory_lw else 0)
      in \<lparr> sku = py_str (get_txt r ''WD Style/Color'' TNaN),
           fineline = get_txt r ''Fineline'' (Txt []),
           description = get_txt r ''Item Description'' (Txt []),
           color = get_txt r ''Color'' (Txt []),
           gender = get_txt r ''Gender'' (Txt []),
           category = get_txt r ''Category'' (Txt []),
           sub_category = get_txt r ''Sub Category'' (Txt []),
           aur_ty = safe_float (get_num r ''AUR TY'' (Fin 0)),
           aur_ly = safe_float (get_num r ''AUR LY'' (Fin 0)),
           sales_units_ytd = safe_float (get_num r ''sales_units_ytd'' (Fin 0)),
           sales_dollars_ytd = dollars_ytd,
           sales_units_lw = units_lw,
           sales_units_lwly = safe_float (get_num r ''sales_units_lwly'' (Fin 0)),
           sales_dollars_lw = safe_float (get_num r ''sales_dollars_lw'' (Fin 0)),
           sales_dollars_lwly = safe_float (get_num r ''sales_dollars_lwly'' (Fin 0)),
           inventory_units_lw = inv_units_lw,
           inventory_dollars_lw = inv_dollars_lw,
           sell_through_ty = safe_float (get_num r ''ST TY'' (Fin 0)),
           sell_through_ly = safe_float (get_num r ''ST LY'' (Fin 0)),
           st_change = safe_float (get_num r ''% Change in ST'' (Fin 0)),
           unit_pct_change = safe_float (get_num r ''% Unit Diff'' (Fin 0)),
           dollar_pct_change = safe_float (get_num r ''% $ Diff'' (Fin 0)),
           sku_wos = py_round 1 w,
           tier = py_str (get_txt r ''tier'' (Txt ''C'')),
           sales_pct_of_total = py_round 6 share,
           cumulative_sales_pct = py_round 6 cumulative_share,
           inventory_pct_of_total = py_round 6 inv_share,
           store_count = None,
           size_analysis = None,
           prime_items = None \<rparr>
         # sku_rows total_sales_ytd total_inventory_lw cumulative_sales' rs)"

text \<open>
  Lines 281 to 378: the totals, the sort and the loop, on the frame \<^verbatim>\<open>sku_df\<close>.  The
  totals are sums with NaN read as 0, so the guard of lines 286 and 287 against a NaN
  total returns the total itself.
\<close>

definition build_sku_records :: "row list \<Rightarrow> sku_record list" where
  "build_sku_records sku_df =
     sku_rows (col_sum ''sales_dollars_ytd'' sku_df) (col_sum ''inventory_dollars_lw'' sku_df) 0
       (sort_values_desc ''sales_dollars_ytd'' sku_df)"

definition build_sku_master :: "etl_state \<Rightarrow> error + etl_state" where
  "build_sku_master s =
     (case build_sku_frame s of
        Inl e \<Rightarrow> Inl e
      | Inr sku_df \<Rightarrow> Inr (s\<lparr>sku_master := build_sku_records sku_df\<rparr>))"


subsection \<open>build\_fineline\_rollup\<close>

definition required_cols :: "string list" where
  "required_cols =
     [''Fineline'',
      ''Sales Units LW'',
      ''Sales Units LWLY'',
      ''Sales Retail $ LW'',
      ''Sales Retail $ LWLY'',
      ''Store On Hand Units LW'',
      ''Store On Hand Retail LW'',
      ''Sales Units 2025YTD'',
      ''Sales Retail $ 2025YTD'']"

text \<open>The loop over \<^verbatim>\<open>required_cols\<close>: the first label that the frame lacks is raised.\<close>

fun check_required :: "string list \<Rightarrow> string list \<Rightarrow> error option" where
  "check_required cols [] = None"
| "check_required cols (col # rest) =
     (if col \<notin> set cols then Some (ValueError (''Missing required fineline column: '' @ col))
      else check_required cols rest)"

definition fineline_row :: "row \<Rightarrow> fineline_record" where
  "fineline_row r =
     (let units_lw = safe_float (get_num r ''Sales Units LW'' NaN);
          inv_units_lw = safe_float (get_num r ''Store On Hand Units LW'' NaN);
          w = (if 0 < units_lw then inv_units_lw / max units_lw (1 / 10000) else 0)
      in \<lparr> fl_fineline = py_str (get_txt r ''Fineline'' TNaN),
           fl_sales_units_lw = units_lw,
           fl_sales_units_lwly = safe_float (get_num r ''Sales Units LWLY'' NaN),
           fl_sales_dollars_lw = safe_float (get_num r ''Sales Retail $ LW'' NaN),
           fl_sales_dollars_lwly = safe_float (get_num r ''Sales Retail $ LWLY'' NaN),
           fl_inventory_units_lw = inv_units_lw,
           fl_inventory_dollars_lw = safe_float (get_num r ''Store On Hand Retail LW'' NaN),
           fl_sales_units_ytd = safe_float (get_num r ''Sales Units 2025YTD'' NaN),
           fl_sales_dollars_ytd = safe_float (get_num r ''Sales Retail $ 2025YTD'' NaN),
           fl_wos = py_round 1 w \<rparr>)"

definition fineline_rows :: "frame \<Rightarrow> error + fineline_record list" where
  "fineline_rows df =
     (case check_required (columns df) required_cols of
        Some e \<Rightarrow> Inl e
      | None \<Rightarrow>
     (case groupby_sum ''Fineline''
             [(''Sales Units LW'', ''Sales Units LW''),
              (''Sales Units LWLY'', ''Sales Units LWLY''),
              (''Sales Retail $ LW'', ''Sales Retail $ LW''),
              (''Sales Retail $ LWLY'', ''Sales Retail $ LWLY''),
              (''Store On Hand Units LW'', ''Store On Hand Units LW''),
              (''Store On Hand Retail LW'', ''Store On Hand Retail LW''),
              (''Sales Units 2025YTD'', ''Sales Units 2025YTD''),
              (''Sales Retail $ 2025YTD'', ''Sales Retail $ 2025YTD'')] df of
        Inl e \<Rightarrow> Inl e
      | Inr grouped \<Rightarrow> Inr (map fineline_row grouped)))"

definition build_fineline_rollup :: "etl_state \<Rightarrow> error + etl_state" where
  "build_fineline_rollup s =
     (case pos_lw s of
        None \<Rightarrow> Inl (AttributeError ''copy'')
      | Some df \<Rightarrow>
     (case fineline_rows df of
        Inl e \<Rightarrow> Inl e
      | Inr recs \<Rightarrow> Inr (s\<lparr>fineline_rollup := recs\<rparr>)))"

subsection \<open>build\_weekly\_sales\_summary\<close>

text \<open>\<^verbatim>\<open>df[c].sum()\<close> raises \<^verbatim>\<open>KeyError\<close> on a label that the frame lacks.\<close>

definition column_total :: "frame \<Rightarrow> string \<Rightarrow> error + real" where
  "column_total df c = (if c \<in> set (columns df) then Inr (col_sum c (rows df)) else Inl (KeyError [c]))"

definition summary_of :: "real \<Rightarrow> real \<Rightarrow> real \<Rightarrow> real \<Rightarrow> real \<Rightarrow> real \<Rightarrow> weekly_summary" where
  "summary_of total_sales_units_lw total_sales_units_lwly total_sales_dollars_lw
      total_sales_dollars_lwly total_inventory_units_lw total_inventory_dollars_lw =
     (let units_delta = total_sales_units_lw - total_sales_units_lwly;
          dollars_delta = total_sales_dollars_lw - total_sales_dollars_lwly;
          units_pct_delta =
            (if 0 < total_sales_units_lwly then units_delta / total_sales_units_lwly * 100 else 0);
          dollars_pct_delta =
            (if 0 < total_sales_dollars_lwly then dollars_delta / total_sales_dollars_lwly * 100 else 0);
          w = (if 0 < total_sales_units_lw
               then total_inventory_units_lw / max total_sales_units_lw (1 / 10000) else 0)
      in \<lparr> wk_sales_units_lw = total_sales_units_lw,
           wk_sales_units_lwly = total_sales_units_lwly,
           wk_sales_dollars_lw = total_sales_dollars_lw,
           wk_sales_dollars_lwly = total_sales_dollars_lwly,
           wk_inventory_units_lw = total_inventory_units_lw,
           wk_inventory_dollars_lw = total_inventory_dollars_lw,
           wk_units_delta = units_delta,
           wk_dollars_delta = dollars_delta,
           wk_units_pct_delta = units_pct_delta,
           wk_dollars_pct_delta = dollars_pct_delta,
           wk_wos = w \<rparr>)"

definition weekly_summary_of :: "frame \<Rightarrow> error + weekly_summary" where
  "weekly_summary_of df =
     (case column_total df ''Sales Units LW'' of Inl e \<Rightarrow> Inl e | Inr a \<Rightarrow>
     (case column_total df ''Sales Units LWLY'' of Inl e \<Rightarrow> Inl e | Inr b \<Rightarrow>
     (case column_total df ''Sales Retail $ LW'' of Inl e \<Rightarrow> Inl e | Inr c \<Rightarrow>
     (case column_total df ''Sales Retail $ LWLY'' of Inl e \<Rightarrow> Inl e | Inr d \<Rightarrow>
     (case column_total df ''Store On Hand Units LW'' of Inl e \<Rightarrow> Inl e | Inr i \<Rightarrow>
     (case column_total df ''Store On Hand Retail LW'' of Inl e \<Rightarrow> Inl e | Inr j \<Rightarrow>
        Inr (summary_of a b c d i j)))))))"

definition build_weekly_sales_summary :: "etl_state \<Rightarrow> error + etl_state" where
  "build_weekly_sales_summary s =
     (case pos_lw s of
        None \<Rightarrow> Inl (AttributeError ''copy'')
      | Some df \<Rightarrow>
     (case weekly_summary_of df of
        Inl e \<Rightarrow> Inl e
      | Inr summary \<Rightarrow> Inr (s\<lparr>weekly_summary := Some summary\<rparr>)))"

subsection \<open>The remaining stages and run\<close>

definition load_seasonal_risk_and_actions :: "etl_state \<Rightarrow> etl_state" where
  "load_seasonal_risk_and_actions s =
     (let s1 = (case files s ''seasonal_risk.json'' of
                  Some j \<Rightarrow> s\<lparr>seasonal_risk := j\<rparr> | None \<Rightarrow> s)
      in case files s1 ''action_items.json'' of
           Some j \<Rightarrow> s1\<lparr>action_items := j\<rparr> | None \<Rightarrow> s1)"

definition calculate_summary_metrics :: "etl_state \<Rightarrow> etl_state" where
  "calculate_summary_metrics s =
     (let wos_vals = map sku_wos (sku_master s);
          avg = (if wos_vals \<noteq> [] then sum_list wos_vals / real (length wos_vals) else 0)
      in s\<lparr>metrics := Some \<lparr> tier_a_count = card (tier_assignments_A s),
                              tier_b_count = card (tier_assignments_B s),
                              tier_c_count = card (tier_assignments_C s),
                              metrics_avg_wos = avg \<rparr>\<rparr>)"

definition basename :: "string \<Rightarrow> string" where
  "basename path = rev (takeWhile (\<lambda>c. c \<noteq> CHR ''/'') (rev path))"

text \<open>\<open>now\<close> is the reading of the clock, \<^verbatim>\<open>datetime.utcnow().isoformat() + "Z"\<close>.\<close>

definition build_meta :: "string \<Rightarrow> etl_state \<Rightarrow> etl_state" where
  "build_meta now s =
     (let s1 = calculate_summary_metrics s
      in s1\<lparr>meta := map_option (\<lambda>m. \<lparr> generated_at = now,
                                        source_pos_file = basename (pos_file s1),
                                        source_ladder_file = basename (ladder_file s1),
                                        source_velocity_file = basename (velocity_file s1),
                                        meta_metrics = m \<rparr>) (metrics s1)\<rparr>)"

definition save_json :: "string \<Rightarrow> json \<Rightarrow> etl_state \<Rightarrow> etl_state" where
  "save_json name obj s = s\<lparr>files := (files s)(name \<mapsto> obj)\<rparr>"

definition save_artifacts :: "etl_state \<Rightarrow> etl_state" where
  "save_artifacts s =
     (let s1 = save_json ''sku_master.json'' (JSkuMaster (sku_master s)) s;
          s2 = save_json ''fineline_rollup.json'' (JFinelineRollup (fineline_rollup s1)) s1;
          s3 = save_json ''weekly_sales_summary.json'' (JWeeklySummary (weekly_summary s2)) s2;
          s4 = save_json ''seasonal_risk.json'' (seasonal_risk s3) s3;
          s5 = save_json ''action_items.json'' (action_items s4) s4
      in save_json ''meta.json'' (JMeta (meta s5)) s5)"

text \<open>
  \<^verbatim>\<open>run\<close>, from the state that the loaders leave.  The result is the returned flag,
  the exception that the handler caught and printed, and the state with the files of the
  output directory.  Each build stage assigns its result as its last statement, so a
  stage that raises leaves the state as it found it.
\<close>

definition run :: "string \<Rightarrow> etl_state \<Rightarrow> bool \<times> error option \<times> etl_state" where
  "run now s =
     (case build_sku_master s of
        Inl e \<Rightarrow> (False, Some e, s)
      | Inr s1 \<Rightarrow>
     (case build_fineline_rollup s1 of
        Inl e \<Rightarrow> (False, Some e, s1)
      | Inr s2 \<Rightarrow>
     (case build_weekly_sales_summary s2 of
        Inl e \<Rightarrow> (False, Some e, s2)
      | Inr s3 \<Rightarrow>
          (True, None, save_artifacts (build_meta now (load_seasonal_risk_and_actions s3))))))"

subsection \<open>The contracts of the specification\<close>


definition percent_change :: "real \<Rightarrow> real \<Rightarrow> real" where
  "percent_change current prior = (if prior = 0 then 0 else (current - prior) / prior * 100)"

text \<open>An error names a column: the message ends with its label, or the labels it carries hold it.\<close>

fun names_column :: "error \<Rightarrow> string \<Rightarrow> bool" where
  "names_column (ValueError msg) c = (\<exists>pre. msg = pre @ c)"
| "names_column (KeyError cs) c = (c \<in> set cs)"
| "names_column _ c = False"

subsection \<open>Sample data\<close>

definition blank_sku :: "string \<Rightarrow> sku_record" where
  "blank_sku k =
     \<lparr> sku = k, fineline = Txt [], description = Txt [], color = Txt [], gender = Txt [],
       category = Txt [], sub_category = Txt [], aur_ty = 0, aur_ly = 0,
       sales_units_ytd = 0, sales_dollars_ytd = 0, sales_units_lw = 0, sales_units_lwly = 0,
       sales_dollars_lw = 0, sales_dollars_lwly = 0, inventory_units_lw = 0,
       inventory_dollars_lw = 0, sell_through_ty = 0, sell_through_ly = 0, st_change = 0,
       unit_pct_change = 0, dollar_pct_change = 0, sku_wos = 0, tier = ''C'',
       sales_pct_of_total = 0, cumulative_sales_pct = 0, inventory_pct_of_total = 0,
       store_count = None, size_analysis = None, prime_items = None \<rparr>"

definition size_item :: "real \<Rightarrow> real \<Rightarrow> real \<Rightarrow> int \<Rightarrow> prime_item" where
  "size_item qty units w stores =
     \<lparr> prime_item_nbr = None, size_descr = ''M'', item_status = ''A'', lw_pos_qty = Fin qty,
       lw_inv_units = Fin units, lw_inv_retail = Fin units, wos = Fin w,
       curr_valid_stores = stores, unit_retail = Fin 1, unit_cost = Fin 1 \<rparr>"


text \<open>A store-level POS frame with two style/colors; the second has an empty cell.\<close>

definition sample_pos :: frame where
  "sample_pos =
     \<lparr> columns = [''WD Style/Color'', ''Fineline'', ''Sales Units LW'', ''Sales Units LWLY'',
                   ''Sales Retail $ LW'', ''Sales Retail $ LWLY'', ''Store On Hand Units LW'',
                   ''Store On Hand Retail LW'', ''Sales Units 2025YTD'', ''Sales Retail $ 2025YTD''],
       rows = [\<lparr> tcells = [''WD Style/Color'' \<mapsto> Txt ''A1'', ''Fineline'' \<mapsto> Txt ''F1''],
                  ncells = [''Sales Units LW'' \<mapsto> Fin 50, ''Sales Units LWLY'' \<mapsto> Fin 40,
                            ''Sales Retail $ LW'' \<mapsto> Fin 110, ''Sales Retail $ LWLY'' \<mapsto> Fin 100,
                            ''Store On Hand Units LW'' \<mapsto> Fin 100, ''Store On Hand Retail LW'' \<mapsto> Fin 2000,
                            ''Sales Units 2025YTD'' \<mapsto> Fin 500, ''Sales Retail $ 2025YTD'' \<mapsto> Fin 10000] \<rparr>,
               \<lparr> tcells = [''WD Style/Color'' \<mapsto> Txt ''A2'', ''Fineline'' \<mapsto> Txt ''F2''],
                  ncells = [''Sales Units LW'' \<mapsto> Fin 0, ''Sales Units LWLY'' \<mapsto> Fin 10,
                            ''Sales Retail $ LW'' \<mapsto> Fin 0, ''Sales Retail $ LWLY'' \<mapsto> NaN,
                            ''Store On Hand Units LW'' \<mapsto> Fin 20, ''Store On Hand Retail LW'' \<mapsto> Fin 400,
                            ''Sales Units 2025YTD'' \<mapsto> Fin 100, ''Sales Retail $ 2025YTD'' \<mapsto> Fin 2000] \<rparr>] \<rparr>"

text \<open>A ladder frame, a loaded state, and the POS frame with one column taken away.\<close>

definition sample_ladder :: frame where
  "sample_ladder =
     \<lparr> columns = [''WD Style/Color'', ''Fineline'', ''Item Description'', ''AUR TY''],
       rows = [\<lparr> tcells = [''WD Style/Color'' \<mapsto> Txt ''A1'', ''Fineline'' \<mapsto> Txt ''F1'',
                            ''Item Description'' \<mapsto> Txt ''Work Pant''],
                  ncells = [''AUR TY'' \<mapsto> Fin 20] \<rparr>] \<rparr>"

definition sample_state :: "frame \<Rightarrow> frame \<Rightarrow> etl_state" where
  "sample_state lw ytd =
     \<lparr> pos_file = ''/data/pos.xlsx'', ladder_file = ''/data/ladder.xlsb'',
       velocity_file = ''/data/velocity.xlsx'',
       pos_lw = Some lw, pos_ytd = Some ytd, ladder = Some sample_ladder,
       sku_master = [], fineline_rollup = [], weekly_summary = None,
       seasonal_risk = JEmptyList, action_items = JEmptyList, meta = None, metrics = None,
       tier_assignments_A = {}, tier_assignments_B = {}, tier_assignments_C = {},
       files = Map.empty \<rparr>"


text \<open>A year-to-date frame for the same two style/colors, with their sales dollars as parameters.\<close>

definition sample_ytd :: "real \<Rightarrow> real \<Rightarrow> frame" where
  "sample_ytd a b =
     \<lparr> columns = [''WD Style/Color'', ''Sales Units 2025YTD'', ''Sales Retail $ 2025YTD''],
       rows = [\<lparr> tcells = [''WD Style/Color'' \<mapsto> Txt ''A2''],
                  ncells = [''Sales Units 2025YTD'' \<mapsto> Fin 100, ''Sales Retail $ 2025YTD'' \<mapsto> Fin b] \<rparr>,
               \<lparr> tcells = [''WD Style/Color'' \<mapsto> Txt ''A1''],
                  ncells = [''Sales Units 2025YTD'' \<mapsto> Fin 500, ''Sales Retail $ 2025YTD'' \<mapsto> Fin a] \<rparr>] \<rparr>"

section \<open>Properties of the size enrichment\<close>

lemma py_max_Max:
  assumes "xs \<noteq> []"
  shows "py_max xs = Max (set xs)"
proof (cases xs)
  case Nil
  with assms show ?thesis by simp
next
  case (Cons a as)
  then show ?thesis
    using Max.set_eq_fold [of a as] by (simp add: py_max_def)
qed

lemma enrich_nth:
  assumes "i < length skus"
  shows "enrich_sku_master_with_size_analysis skus style_map ! i
           = enrich_sku style_map (skus ! i)"
  using assms by (simp add: enrich_sku_master_with_size_analysis_def)

text \<open>
  C8.  A SKU with at least one size record under its key gets, as \<^verbatim>\<open>store_count\<close> and
  as \<^verbatim>\<open>size_analysis.total_stores\<close>, the largest \<^verbatim>\<open>curr_valid_stores\<close> among its size
  records, not their sum.
\<close>

theorem store_count_is_max:
  assumes "i < length skus"
      and "style_map (sku (skus ! i)) = Some ps"
      and "ps \<noteq> []"
  shows "store_count (enrich_sku_master_with_size_analysis skus style_map ! i)
           = Some (Max (set (map curr_valid_stores ps)))
       \<and> map_option total_stores
             (size_analysis (enrich_sku_master_with_size_analysis skus style_map ! i))
           = Some (Max (set (map curr_valid_stores ps)))"
  using assms
  by (simp add: enrich_nth enrich_sku_def size_analysis_of_def Let_def py_max_Max)

theorem store_count_is_max_witness:
  "store_count (enrich_sku_master_with_size_analysis [blank_sku ''A1'']
      [''A1'' \<mapsto> [size_item 1 5 5 7, size_item 2 4 2 9]] ! 0) = Some 9"
  using store_count_is_max [of 0 "[blank_sku ''A1'']"
      "[''A1'' \<mapsto> [size_item 1 5 5 7, size_item 2 4 2 9]]"
      "[size_item 1 5 5 7, size_item 2 4 2 9]"]
  by (simp add: blank_sku_def size_item_def)



section \<open>Properties of the size recommendations\<close>

lemma recommend_fields:
  assumes "recommend s = Some r"
  shows "\<exists>a. size_analysis s = Some a \<and> 0 < dead_sizes a \<and> size_efficiency_pct a < 70
           \<and> rec_sku r = sku s \<and> rec_dead_sizes r = dead_sizes a
           \<and> rec_priority r = (if 3 < dead_sizes a then ''high'' else ''medium'')"
proof -
  from assms obtain a where a: "size_analysis s = Some a"
    by (cases "size_analysis s") (simp_all add: recommend_def)
  from assms a have c: "0 < dead_sizes a \<and> size_efficiency_pct a < 70"
    by (cases "0 < dead_sizes a \<and> size_efficiency_pct a < 70") (simp_all add: recommend_def)
  from assms a c have "rec_priority r = (if 3 < dead_sizes a then ''high'' else ''medium'')"
    and "rec_dead_sizes r = dead_sizes a" and "rec_sku r = sku s"
    unfolding recommend_def by auto
  with a c show ?thesis by simp
qed

lemma recommend_priority:
  assumes "recommend s = Some r"
  shows "rec_priority r = (if 3 < rec_dead_sizes r then ''high'' else ''medium'')"
  using recommend_fields [OF assms] by auto

lemma recommend_Some_iff:
  "(\<exists>r. recommend s = Some r)
     = (case size_analysis s of None \<Rightarrow> False
        | Some a \<Rightarrow> 0 < dead_sizes a \<and> size_efficiency_pct a < 70)"
  by (cases "size_analysis s") (simp_all add: recommend_def)

lemma recommendations_skus:
  "map rec_sku (generate_size_recommendations skus)
     = map sku (filter (\<lambda>s. case size_analysis s of None \<Rightarrow> False
                            | Some a \<Rightarrow> 0 < dead_sizes a \<and> size_efficiency_pct a < 70) skus)"
proof (induction skus)
  case Nil
  then show ?case by (simp add: generate_size_recommendations_def List.map_filter_simps)
next
  case (Cons s rest)
  show ?case
  proof (cases "recommend s")
    case None
    with recommend_Some_iff [of s] Cons show ?thesis
      by (simp add: generate_size_recommendations_def List.map_filter_simps)
  next
    case (Some r)
    with recommend_Some_iff [of s] recommend_fields [OF Some] Cons show ?thesis
      by (auto simp add: generate_size_recommendations_def List.map_filter_simps)
  qed
qed

text \<open>
  C10.  The recommendations are, in order, those of the SKUs that carry a
  \<^verbatim>\<open>size_analysis\<close> with \<^verbatim>\<open>dead_sizes > 0\<close> and \<^verbatim>\<open>size_efficiency_pct < 70\<close>, one each and
  none for any other SKU; the priority of each is \<^verbatim>\<open>high\<close> when its \<^verbatim>\<open>dead_sizes\<close>
  exceeds 3 and \<^verbatim>\<open>medium\<close> otherwise.
\<close>

theorem recommendations_emitted_iff:
  "map rec_sku (generate_size_recommendations skus)
     = map sku (filter (\<lambda>s. case size_analysis s of None \<Rightarrow> False
                            | Some a \<Rightarrow> 0 < dead_sizes a \<and> size_efficiency_pct a < 70) skus)
   \<and> (\<forall>r \<in> set (generate_size_recommendations skus).
         rec_priority r = (if 3 < rec_dead_sizes r then ''high'' else ''medium''))"
proof
  show "map rec_sku (generate_size_recommendations skus)
     = map sku (filter (\<lambda>s. case size_analysis s of None \<Rightarrow> False
                            | Some a \<Rightarrow> 0 < dead_sizes a \<and> size_efficiency_pct a < 70) skus)"
    by (rule recommendations_skus)
  show "\<forall>r \<in> set (generate_size_recommendations skus).
         rec_priority r = (if 3 < rec_dead_sizes r then ''high'' else ''medium'')"
  proof
    fix r
    assume "r \<in> set (generate_size_recommendations skus)"
    then obtain s where "recommend s = Some r"
      unfolding generate_size_recommendations_def List.map_filter_def by auto
    then show "rec_priority r = (if 3 < rec_dead_sizes r then ''high'' else ''medium'')"
      by (rule recommend_priority)
  qed
qed


theorem recommendations_emitted_iff_witness:
  "map rec_sku (generate_size_recommendations
      [blank_sku ''A1'',
       (blank_sku ''B2'')\<lparr>size_analysis := Some \<lparr> total_prime_items = 6, active_items = 6,
          total_stores = 9, avg_wos = 40, max_wos = 50, min_wos = 5, productive_sizes = 2,
          dead_sizes = 4, size_efficiency_pct = 33.3 \<rparr>\<rparr>]) = [''B2'']
   \<and> map rec_priority (generate_size_recommendations
      [blank_sku ''A1'',
       (blank_sku ''B2'')\<lparr>size_analysis := Some \<lparr> total_prime_items = 6, active_items = 6,
          total_stores = 9, avg_wos = 40, max_wos = 50, min_wos = 5, productive_sizes = 2,
          dead_sizes = 4, size_efficiency_pct = 33.3 \<rparr>\<rparr>]) = [''high'']"
  using recommendations_emitted_iff [of "[blank_sku ''A1'',
       (blank_sku ''B2'')\<lparr>size_analysis := Some \<lparr> total_prime_items = 6, active_items = 6,
          total_stores = 9, avg_wos = 40, max_wos = 50, min_wos = 5, productive_sizes = 2,
          dead_sizes = 4, size_efficiency_pct = 33.3 \<rparr>\<rparr>]"]
  by (simp add: generate_size_recommendations_def List.map_filter_simps recommend_def blank_sku_def)


section \<open>Properties of the size analysis\<close>

lemma pf_less_0_iff: "pf_less (Fin 0) x = (\<exists>q. x = Fin q \<and> 0 < q)"
  by (cases x) simp_all

lemma productive_iff:
  "productive p = (\<exists>q w. lw_pos_qty p = Fin q \<and> wos p = Fin w \<and> 0 < q \<and> w < 20)"
  by (cases "lw_pos_qty p"; cases "wos p") (simp_all add: productive_def)

lemma dead_iff:
  "dead p = ((\<exists>w. wos p = Fin w \<and> 30 < w)
              \<or> (lw_pos_qty p = Fin 0 \<and> (\<exists>u. lw_inv_units p = Fin u \<and> 0 < u)))"
  by (cases "lw_pos_qty p"; cases "wos p"; cases "lw_inv_units p") (simp_all add: dead_def)

lemma size_analysis_of_counts:
  "productive_sizes (size_analysis_of ps) = length (filter productive ps)"
  "dead_sizes (size_analysis_of ps) = length (filter dead ps)"
  "size_efficiency_pct (size_analysis_of ps)
     = (if ps = [] then 0
        else py_round 1 (real (length (filter productive ps)) / real (length ps) * 100))"
  by (simp_all add: size_analysis_of_def Let_def)

lemma enrich_matched:
  assumes "style_map (sku s) = Some ps"
  shows "size_analysis (enrich_sku style_map s) = Some (size_analysis_of ps)"
  using assms by (simp add: enrich_sku_def)

text \<open>
  C2, as the code has it.  For a SKU with size records \<open>ps\<close> the analysis counts as
  productive the sizes with positive last-week sales and a WOS below 20 (not 30), as dead
  the sizes with a WOS above 30 or with zero sales and positive inventory units, and sets
  the efficiency to productive over total times 100, rounded to one decimal.  With four
  size records of which exactly two have a WOS above 30, \<^verbatim>\<open>dead_sizes\<close> is 2 when no
  size has zero sales with positive inventory.
\<close>

theorem size_analysis_counts:
  assumes "i < length skus"
      and "style_map (sku (skus ! i)) = Some ps"
  shows "\<exists>a. size_analysis (enrich_sku_master_with_size_analysis skus style_map ! i) = Some a
     \<and> productive_sizes a
         = length (filter (\<lambda>p. \<exists>q w. lw_pos_qty p = Fin q \<and> wos p = Fin w \<and> 0 < q \<and> w < 20) ps)
     \<and> dead_sizes a
         = length (filter (\<lambda>p. (\<exists>w. wos p = Fin w \<and> 30 < w)
              \<or> (lw_pos_qty p = Fin 0 \<and> (\<exists>u. lw_inv_units p = Fin u \<and> 0 < u))) ps)
     \<and> size_efficiency_pct a
         = (if ps = [] then 0
            else py_round 1 (real (productive_sizes a) / real (length ps) * 100))
     \<and> (length ps = 4
          \<and> length (filter (\<lambda>p. \<exists>w. wos p = Fin w \<and> 30 < w) ps) = 2
          \<and> (\<forall>p \<in> set ps. \<not> (lw_pos_qty p = Fin 0 \<and> (\<exists>u. lw_inv_units p = Fin u \<and> 0 < u)))
        \<longrightarrow> dead_sizes a = 2)"
proof -
  let ?a = "size_analysis_of ps"
  have e: "size_analysis (enrich_sku_master_with_size_analysis skus style_map ! i) = Some ?a"
    using assms by (simp add: enrich_nth enrich_matched)
  have p: "productive_sizes ?a
         = length (filter (\<lambda>p. \<exists>q w. lw_pos_qty p = Fin q \<and> wos p = Fin w \<and> 0 < q \<and> w < 20) ps)"
  proof -
    have "filter productive ps
            = filter (\<lambda>p. \<exists>q w. lw_pos_qty p = Fin q \<and> wos p = Fin w \<and> 0 < q \<and> w < 20) ps"
      by (rule filter_cong) (simp_all only: productive_iff)
    then show ?thesis by (simp only: size_analysis_of_counts)
  qed
  have d: "dead_sizes ?a
         = length (filter (\<lambda>p. (\<exists>w. wos p = Fin w \<and> 30 < w)
              \<or> (lw_pos_qty p = Fin 0 \<and> (\<exists>u. lw_inv_units p = Fin u \<and> 0 < u))) ps)"
  proof -
    have "filter dead ps
            = filter (\<lambda>p. (\<exists>w. wos p = Fin w \<and> 30 < w)
                \<or> (lw_pos_qty p = Fin 0 \<and> (\<exists>u. lw_inv_units p = Fin u \<and> 0 < u))) ps"
      by (rule filter_cong) (simp_all only: dead_iff)
    then show ?thesis by (simp only: size_analysis_of_counts)
  qed
  have f: "size_efficiency_pct ?a
         = (if ps = [] then 0
            else py_round 1 (real (productive_sizes ?a) / real (length ps) * 100))"
    by (simp add: size_analysis_of_counts)
  have g: "dead_sizes ?a = 2"
    if "length (filter (\<lambda>p. \<exists>w. wos p = Fin w \<and> 30 < w) ps) = 2"
      and "\<forall>p \<in> set ps. \<not> (lw_pos_qty p = Fin 0 \<and> (\<exists>u. lw_inv_units p = Fin u \<and> 0 < u))"
  proof -
    have "filter (\<lambda>p. (\<exists>w. wos p = Fin w \<and> 30 < w)
              \<or> (lw_pos_qty p = Fin 0 \<and> (\<exists>u. lw_inv_units p = Fin u \<and> 0 < u))) ps
          = filter (\<lambda>p. \<exists>w. wos p = Fin w \<and> 30 < w) ps"
      using that(2) by (intro filter_cong) auto
    with d that(1) show ?thesis by simp
  qed
  from e p d f g show ?thesis by blast
qed

theorem size_analysis_counts_witness:
  "map_option productive_sizes (size_analysis (enrich_sku_master_with_size_analysis [blank_sku ''A1'']
      [''A1'' \<mapsto> [size_item 1 5 5 3, size_item 2 10 5 3, size_item 1 40 40 3, size_item 1 50 50 3]] ! 0)) = Some 2
   \<and> map_option dead_sizes (size_analysis (enrich_sku_master_with_size_analysis [blank_sku ''A1'']
      [''A1'' \<mapsto> [size_item 1 5 5 3, size_item 2 10 5 3, size_item 1 40 40 3, size_item 1 50 50 3]] ! 0)) = Some 2"
  using size_analysis_counts [of 0 "[blank_sku ''A1'']"
      "[''A1'' \<mapsto> [size_item 1 5 5 3, size_item 2 10 5 3, size_item 1 40 40 3, size_item 1 50 50 3]]"
      "[size_item 1 5 5 3, size_item 2 10 5 3, size_item 1 40 40 3, size_item 1 50 50 3]"]
  by (auto simp add: blank_sku_def size_item_def)


text \<open>
  The claim as stated fails on four sizes that all sold one unit or none: one with WOS 25,
  two with WOS 40 and 50, one with no sales and 5 units on hand.  One size has positive
  sales and a WOS below 30, yet none is counted productive; exactly two sizes have a WOS
  above 30, yet three are counted dead.
\<close>

theorem size_analysis_counts_counterexample:
  "length [size_item 1 25 25 3, size_item 1 40 40 3, size_item 1 50 50 3, size_item 0 5 0 3] = 4
   \<and> length (filter (\<lambda>p. pf_less (Fin 30) (wos p))
         [size_item 1 25 25 3, size_item 1 40 40 3, size_item 1 50 50 3, size_item 0 5 0 3]) = 2
   \<and> length (filter (\<lambda>p. pf_less (Fin 0) (lw_pos_qty p) \<and> pf_less (wos p) (Fin 30))
         [size_item 1 25 25 3, size_item 1 40 40 3, size_item 1 50 50 3, size_item 0 5 0 3]) = 1
   \<and> map_option productive_sizes (size_analysis (enrich_sku_master_with_size_analysis [blank_sku ''A1'']
         [''A1'' \<mapsto> [size_item 1 25 25 3, size_item 1 40 40 3, size_item 1 50 50 3, size_item 0 5 0 3]] ! 0)) = Some 0
   \<and> map_option dead_sizes (size_analysis (enrich_sku_master_with_size_analysis [blank_sku ''A1'']
         [''A1'' \<mapsto> [size_item 1 25 25 3, size_item 1 40 40 3, size_item 1 50 50 3, size_item 0 5 0 3]] ! 0)) = Some 3"
  by (simp add: enrich_sku_master_with_size_analysis_def enrich_sku_def size_analysis_of_def
      blank_sku_def size_item_def productive_def dead_def Let_def)


section \<open>Properties of the velocity rows\<close>

lemma row_lw_inv_units_total: "\<exists>u. row_lw_inv_units r = Inr u"
  by (cases "row_lw_avg_retail r"; cases "row_lw_inv_retail r") (auto simp: row_lw_inv_units_def)

lemma row_wos_total: "\<exists>w. row_wos r = Inr w"
proof -
  obtain u where u: "row_lw_inv_units r = Inr u" using row_lw_inv_units_total by blast
  show ?thesis
    by (cases "row_lw_pos_qty r"; cases u) (auto simp: row_wos_def u)
qed

lemma pf_div_one: "pf_div x (Fin 1) = Inr x"
  by (cases x) simp_all

lemma avg_retail_default:
  assumes "ncells r ''LW Avg Retail'' = None \<or> ncells r ''LW Avg Retail'' = Some (Fin 0)"
  shows "row_lw_avg_retail r = Fin 1"
  using assms by (auto simp: row_lw_avg_retail_def get_num_def py_or_def)

lemma prime_item_record_no_zero_division: "prime_item_record r \<noteq> Inl ZeroDivisionError"
proof -
  obtain u where u: "row_lw_inv_units r = Inr u" using row_lw_inv_units_total by blast
  obtain w where w: "row_wos r = Inr w" using row_wos_total by blast
  show ?thesis
    by (cases "py_or (get_num r ''Curr Valid Stores'' (Fin 0)) (Fin 0)")
       (simp_all add: prime_item_record_def u w)
qed

text \<open>
  C9, as the code has it.  For every velocity row the inventory units and the WOS of a
  size are computed without an error, and building the size record never raises a
  division by zero.  When the average retail price is zero or the row has no such column,
  it is replaced by 1 and the inventory units equal the inventory retail dollars; when
  the cell is NaN, the inventory units are 0.  When the last-week sales quantity is not
  positive, the WOS is 0, also in the size record.
\<close>

theorem size_units_and_wos_total:
  "(\<exists>u. row_lw_inv_units r = Inr u) \<and> (\<exists>w. row_wos r = Inr w)
   \<and> prime_item_record r \<noteq> Inl ZeroDivisionError
   \<and> (ncells r ''LW Avg Retail'' = None \<or> ncells r ''LW Avg Retail'' = Some (Fin 0)
        \<longrightarrow> row_lw_inv_units r = Inr (row_lw_inv_retail r))
   \<and> (ncells r ''LW Avg Retail'' = Some NaN \<longrightarrow> row_lw_inv_units r = Inr (Fin 0))
   \<and> (\<not> pf_less (Fin 0) (row_lw_pos_qty r) \<longrightarrow> row_wos r = Inr (Fin 0))
   \<and> (\<forall>p. prime_item_record r = Inr p \<and> \<not> pf_less (Fin 0) (lw_pos_qty p) \<longrightarrow> wos p = Fin 0)"
proof (intro conjI)
  show "\<exists>u. row_lw_inv_units r = Inr u" by (rule row_lw_inv_units_total)
  show "\<exists>w. row_wos r = Inr w" by (rule row_wos_total)
  show "prime_item_record r \<noteq> Inl ZeroDivisionError" by (rule prime_item_record_no_zero_division)
  show "ncells r ''LW Avg Retail'' = None \<or> ncells r ''LW Avg Retail'' = Some (Fin 0)
        \<longrightarrow> row_lw_inv_units r = Inr (row_lw_inv_retail r)"
    by (simp add: row_lw_inv_units_def avg_retail_default pf_div_one)
  show "ncells r ''LW Avg Retail'' = Some NaN \<longrightarrow> row_lw_inv_units r = Inr (Fin 0)"
    by (simp add: row_lw_inv_units_def row_lw_avg_retail_def get_num_def py_or_def)
  show z: "\<not> pf_less (Fin 0) (row_lw_pos_qty r) \<longrightarrow> row_wos r = Inr (Fin 0)"
    using row_lw_inv_units_total [of r] by (auto simp: row_wos_def)
  show "\<forall>p. prime_item_record r = Inr p \<and> \<not> pf_less (Fin 0) (lw_pos_qty p) \<longrightarrow> wos p = Fin 0"
  proof (intro allI impI)
    fix p
    assume a: "prime_item_record r = Inr p \<and> \<not> pf_less (Fin 0) (lw_pos_qty p)"
    obtain u where u: "row_lw_inv_units r = Inr u" using row_lw_inv_units_total by blast
    obtain w where w: "row_wos r = Inr w" using row_wos_total by blast
    from a u w have q: "lw_pos_qty p = row_lw_pos_qty r" and v: "wos p = pf_round 1 w"
      by (auto simp: prime_item_record_def split: sum.splits)
    from a q z w have "w = Fin 0" by simp
    with v show "wos p = Fin 0" by (simp add: py_round_def round_half_even_def)
  qed
qed

theorem size_units_and_wos_total_witness:
  "row_lw_inv_units \<lparr>tcells = Map.empty, ncells = [''Total LW Str Inv Retail'' \<mapsto> Fin 100]\<rparr> = Inr (Fin 100)
   \<and> row_wos \<lparr>tcells = Map.empty, ncells = [''Total LW Str Inv Retail'' \<mapsto> Fin 100]\<rparr> = Inr (Fin 0)"
  using size_units_and_wos_total [of "\<lparr>tcells = Map.empty, ncells = [''Total LW Str Inv Retail'' \<mapsto> Fin 100]\<rparr>"]
  by (simp add: row_lw_inv_retail_def row_lw_pos_qty_def get_num_def py_or_def)

text \<open>
  The claim as stated fails on an empty cell: with 100 dollars of inventory and a NaN
  average retail price the price is not replaced by 1, and the inventory units are 0.
\<close>

theorem size_units_and_wos_total_counterexample:
  "row_lw_inv_units \<lparr>tcells = Map.empty,
      ncells = [''Total LW Str Inv Retail'' \<mapsto> Fin 100, ''LW Avg Retail'' \<mapsto> NaN, ''LW POS Qty'' \<mapsto> Fin 5]\<rparr> = Inr (Fin 0)
   \<and> row_lw_inv_retail \<lparr>tcells = Map.empty,
      ncells = [''Total LW Str Inv Retail'' \<mapsto> Fin 100, ''LW Avg Retail'' \<mapsto> NaN, ''LW POS Qty'' \<mapsto> Fin 5]\<rparr> = Fin 100"
  by (simp add: row_lw_inv_units_def row_lw_avg_retail_def row_lw_inv_retail_def get_num_def py_or_def)

section \<open>Rows without a grouping key\<close>

text \<open>
  C4.  A velocity row whose \<^verbatim>\<open>Vndr Category 2\<close> cell is missing is not skipped: the
  cell is turned into the string \<^verbatim>\<open>nan\<close> before the test for a missing value, so
  the row is grouped under the key \<^verbatim>\<open>nan\<close>.
\<close>

theorem missing_style_key_grouped_under_nan:
  "(case map_velocity_to_styles
      [\<lparr>tcells = [''Vndr Category 2'' \<mapsto> TNaN, ''Prime Size Description'' \<mapsto> Txt ''32X32''],
        ncells = [''LW POS Qty'' \<mapsto> Fin 2, ''Curr Valid Stores'' \<mapsto> Fin 10]\<rparr>] of
      Inl e \<Rightarrow> None | Inr m \<Rightarrow> map_option (map size_descr) (m ''nan'')) = Some [''32X32'']"
  by (simp add: map_velocity_to_styles_def map_velocity_row_def row_style_color_def get_txt_def
      strip_def is_space_def pd_isna_str_def prime_item_record_def row_lw_inv_units_def
      row_wos_def row_lw_avg_retail_def row_lw_inv_retail_def row_lw_pos_qty_def get_num_def py_or_def)

text \<open>The fineline rollup does drop the rows whose \<^verbatim>\<open>Fineline\<close> cell is missing.\<close>

lemma group_keys_filter:
  "group_keys k (filter (\<lambda>r. key_of k r \<noteq> None) rs) = group_keys k rs"
proof -
  have "List.map_filter (key_of k) (filter (\<lambda>r. key_of k r \<noteq> None) rs) = List.map_filter (key_of k) rs"
    by (induction rs) (auto simp: List.map_filter_simps split: option.splits)
  then show ?thesis by (simp add: group_keys_def)
qed

lemma group_rows_filter:
  "group_rows k g (filter (\<lambda>r. key_of k r \<noteq> None) rs) = group_rows k g rs"
  by (induction rs) (auto simp: group_rows_def)

lemma groupby_sum_ignores_missing_keys:
  "groupby_sum k cols (df\<lparr>rows := filter (\<lambda>r. key_of k r \<noteq> None) (rows df)\<rparr>) = groupby_sum k cols df"
  by (simp add: groupby_sum_def group_keys_filter group_rows_filter del: not_None_eq cong: list.case_cong)

lemma fineline_rows_ignore_missing_keys:
  "fineline_rows (df\<lparr>rows := filter (\<lambda>r. key_of ''Fineline'' r \<noteq> None) (rows df)\<rparr>) = fineline_rows df"
  by (simp add: fineline_rows_def groupby_sum_ignores_missing_keys del: not_None_eq cong: option.case_cong)



section \<open>Percent change\<close>

lemma weekly_summary_of_shape:
  assumes "weekly_summary_of df = Inr w"
  shows "\<exists>a b c d i j. w = summary_of a b c d i j"
  using assms unfolding weekly_summary_of_def by (simp split: sum.splits) blast

lemma summary_of_units_pct:
  "0 \<le> b \<Longrightarrow> wk_units_pct_delta (summary_of a b c d i j)
     = percent_change (wk_sales_units_lw (summary_of a b c d i j)) (wk_sales_units_lwly (summary_of a b c d i j))"
  by (simp add: summary_of_def percent_change_def Let_def)

lemma summary_of_dollars_pct:
  "0 \<le> d \<Longrightarrow> wk_dollars_pct_delta (summary_of a b c d i j)
     = percent_change (wk_sales_dollars_lw (summary_of a b c d i j)) (wk_sales_dollars_lwly (summary_of a b c d i j))"
  by (simp add: summary_of_def percent_change_def Let_def)

lemma summary_of_fields:
  "wk_sales_units_lwly (summary_of a b c d i j) = b"
  "wk_sales_dollars_lwly (summary_of a b c d i j) = d"
  "wk_sales_units_lw (summary_of a b c d i j) = a"
  "wk_inventory_units_lw (summary_of a b c d i j) = i"
  by (simp_all add: summary_of_def Let_def)

text \<open>
  C6.  \<^verbatim>\<open>_yoy_pct\<close> is the percent change of the specification for every current and
  prior value.  The weekly summary tests \<^verbatim>\<open>prior > 0\<close> instead of \<^verbatim>\<open>prior == 0\<close>; for a
  prior total that is not negative its two percent deltas are the same percent change.
  The percent change is \<open>(c - p) / p * 100\<close> for \<open>p \<noteq> 0\<close>, is 0 for \<open>p = 0\<close>, and
  is 10 from 100 to 110.
\<close>

theorem percent_change_rule:
  "yoy_pct c p = percent_change c p
   \<and> (\<forall>w. weekly_summary_of df = Inr w \<and> 0 \<le> wk_sales_units_lwly w
          \<longrightarrow> wk_units_pct_delta w = percent_change (wk_sales_units_lw w) (wk_sales_units_lwly w))
   \<and> (\<forall>w. weekly_summary_of df = Inr w \<and> 0 \<le> wk_sales_dollars_lwly w
          \<longrightarrow> wk_dollars_pct_delta w = percent_change (wk_sales_dollars_lw w) (wk_sales_dollars_lwly w))
   \<and> (p \<noteq> 0 \<longrightarrow> percent_change c p = (c - p) / p * 100)
   \<and> percent_change x 0 = 0
   \<and> percent_change 110 100 = 10"
proof (intro conjI allI impI)
  show "yoy_pct c p = percent_change c p" by (simp add: yoy_pct_def percent_change_def)
  show "percent_change c p = (c - p) / p * 100" if "p \<noteq> 0"
    using that by (simp add: percent_change_def)
  show "percent_change x 0 = 0" by (simp add: percent_change_def)
  show "percent_change 110 100 = 10" by (simp add: percent_change_def)
next
  fix w assume a: "weekly_summary_of df = Inr w \<and> 0 \<le> wk_sales_units_lwly w"
  then obtain a' b c' d i j where w: "w = summary_of a' b c' d i j"
    using weekly_summary_of_shape by blast
  with a have "0 \<le> b" by (simp add: summary_of_fields)
  then show "wk_units_pct_delta w = percent_change (wk_sales_units_lw w) (wk_sales_units_lwly w)"
    unfolding w by (rule summary_of_units_pct)
next
  fix w assume a: "weekly_summary_of df = Inr w \<and> 0 \<le> wk_sales_dollars_lwly w"
  then obtain a' b c' d i j where w: "w = summary_of a' b c' d i j"
    using weekly_summary_of_shape by blast
  with a have "0 \<le> d" by (simp add: summary_of_fields)
  then show "wk_dollars_pct_delta w = percent_change (wk_sales_dollars_lw w) (wk_sales_dollars_lwly w)"
    unfolding w by (rule summary_of_dollars_pct)
qed

lemma sample_weekly:
  "weekly_summary_of sample_pos = Inr (summary_of 50 50 110 100 120 2400)"
  by (simp add: weekly_summary_of_def column_total_def sample_pos_def col_sum_def get_num_def)

theorem percent_change_rule_witness:
  "(case weekly_summary_of sample_pos of Inl e \<Rightarrow> None
     | Inr w \<Rightarrow> Some (wk_sales_dollars_lw w, wk_sales_dollars_lwly w, wk_dollars_pct_delta w,
                       wk_sales_units_lw w, wk_sales_units_lwly w, wk_units_pct_delta w))
     = Some (110, 100, 10, 50, 50, 0)
   \<and> yoy_pct 110 100 = 10"
  using percent_change_rule [of 110 100 sample_pos 0]
  by (simp add: sample_weekly summary_of_def percent_change_def)

section \<open>Weeks of supply\<close>








lemma py_round_int: "py_round n (of_int z) = of_int z"
proof -
  have "(of_int z :: real) * 10 ^ n = of_int (z * 10 ^ n)" by simp
  then have "round_half_even (of_int z * 10 ^ n) = z * 10 ^ n"
    unfolding round_half_even_def Let_def by (simp only: floor_of_int) simp
  then show ?thesis by (simp add: py_round_def)
qed





section \<open>A missing column aborts the run\<close>








lemma names_KeyError: "c \<in> set cs \<Longrightarrow> names_column (KeyError cs) c"
  by simp


text \<open>A run that fails writes no file; a run that succeeds writes all six.\<close>

lemma build_stage_files:
  "build_sku_master s = Inr s' \<Longrightarrow> files s' = files s"
  "build_fineline_rollup s = Inr s' \<Longrightarrow> files s' = files s"
  "build_weekly_sales_summary s = Inr s' \<Longrightarrow> files s' = files s"
  by (auto simp: build_sku_master_def build_fineline_rollup_def build_weekly_sales_summary_def
      split: sum.splits option.splits)

lemma run_failure_keeps_files:
  assumes "\<not> fst (run now s)"
  shows "files (snd (snd (run now s))) = files s"
proof (cases "build_sku_master s")
  case Inl
  then show ?thesis by (simp add: run_def)
next
  case (Inr s1)
  note a = this
  show ?thesis
  proof (cases "build_fineline_rollup s1")
    case Inl
    with a build_stage_files(1) [OF a] show ?thesis by (simp add: run_def)
  next
    case (Inr s2)
    note b = this
    show ?thesis
    proof (cases "build_weekly_sales_summary s2")
      case Inl
      with a b build_stage_files(1) [OF a] build_stage_files(2) [OF b] show ?thesis
        by (simp add: run_def)
    next
      case (Inr s3)
      with a b assms show ?thesis by (simp add: run_def)
    qed
  qed
qed

lemma run_success:
  assumes "fst (run now s)"
  shows "\<exists>s3. run now s = (True, None, save_artifacts (build_meta now (load_seasonal_risk_and_actions s3)))"
proof (cases "build_sku_master s")
  case Inl
  with assms show ?thesis by (simp add: run_def)
next
  case (Inr s1)
  note a = this
  show ?thesis
  proof (cases "build_fineline_rollup s1")
    case Inl
    with a assms show ?thesis by (simp add: run_def)
  next
    case (Inr s2)
    note b = this
    show ?thesis
    proof (cases "build_weekly_sales_summary s2")
      case Inl
      with a b assms show ?thesis by (simp add: run_def)
    next
      case (Inr s3)
      with a b have "run now s
          = (True, None, save_artifacts (build_meta now (load_seasonal_risk_and_actions s3)))"
        by (simp add: run_def)
      then show ?thesis by (rule exI)
    qed
  qed
qed

lemma run_success_writes_files:
  assumes "fst (run now s)"
  shows "{''sku_master.json'', ''fineline_rollup.json'', ''weekly_sales_summary.json'',
          ''seasonal_risk.json'', ''action_items.json'', ''meta.json''}
           \<subseteq> dom (files (snd (snd (run now s))))"
proof -
  from run_success [OF assms] obtain s3
    where "run now s = (True, None, save_artifacts (build_meta now (load_seasonal_risk_and_actions s3)))"
    by blast
  then show ?thesis by (simp add: save_artifacts_def save_json_def Let_def)
qed





section \<open>Cumulative share of sales\<close>

lemma round_half_even_bounds:
  "\<lfloor>x\<rfloor> \<le> round_half_even x \<and> round_half_even x \<le> \<lfloor>x\<rfloor> + 1"
  by (simp add: round_half_even_def Let_def)

lemma round_half_even_mono:
  assumes "x \<le> y"
  shows "round_half_even x \<le> round_half_even y"
proof (cases "\<lfloor>x\<rfloor> = \<lfloor>y\<rfloor>")
  case True
  with assms have "x - of_int \<lfloor>x\<rfloor> \<le> y - of_int \<lfloor>y\<rfloor>" by simp
  with True show ?thesis by (auto simp: round_half_even_def Let_def)
next
  case False
  with assms have "\<lfloor>x\<rfloor> + 1 \<le> \<lfloor>y\<rfloor>" using floor_mono [OF assms] by linarith
  with round_half_even_bounds [of x] round_half_even_bounds [of y] show ?thesis by linarith
qed

lemma py_round_mono:
  assumes "x \<le> y"
  shows "py_round n x \<le> py_round n y"
proof -
  from assms have "x * 10 ^ n \<le> y * 10 ^ n" by (simp add: mult_right_mono)
  then have "round_half_even (x * 10 ^ n) \<le> round_half_even (y * 10 ^ n)"
    by (rule round_half_even_mono)
  then show ?thesis by (simp add: py_round_def divide_right_mono)
qed

lemma safe_float_get_num:
  "safe_float (get_num r c NaN) = safe_float (get_num r c (Fin 0))"
  by (simp add: get_num_def split: option.splits)

lemma no_value_zero:
  "\<not> has_value c r \<Longrightarrow> safe_float (get_num r c (Fin 0)) = 0"
  by (cases "ncells r c") (auto simp: has_value_def get_num_def split: pyfloat.splits)

lemma mset_sort_values_desc: "mset (sort_values_desc c rs) = mset rs"
  by (simp add: sort_values_desc_def)

lemma set_sort_values_desc: "set (sort_values_desc c rs) = set rs"
  using mset_sort_values_desc [of c rs] by (metis set_mset_mset)

lemma sum_list_sort_values_desc:
  fixes f :: "row \<Rightarrow> real"
  shows "sum_list (map f (sort_values_desc c rs)) = sum_list (map f rs)"
proof -
  have "mset (map f (sort_values_desc c rs)) = mset (map f rs)"
    by (simp only: mset_map mset_sort_values_desc)
  then show ?thesis by (metis sum_mset_sum_list)
qed

lemma sorted_sort_values_desc:
  assumes "\<forall>r \<in> set rs. 0 \<le> safe_float (get_num r c (Fin 0))"
  shows "sorted_wrt (\<ge>) (map (\<lambda>r. safe_float (get_num r c (Fin 0))) (sort_values_desc c rs))"
proof -
  let ?v = "\<lambda>r. safe_float (get_num r c (Fin 0))"
  let ?k = "\<lambda>r. safe_float (get_num r c NaN)"
  let ?a = "rev (sort_key ?k (rev (filter (has_value c) rs)))"
  let ?b = "filter (\<lambda>r. \<not> has_value c r) rs"
  have k: "?k = ?v" by (rule ext) (rule safe_float_get_num)
  have "sorted (map ?k (sort_key ?k (rev (filter (has_value c) rs))))"
    by (rule sorted_sort_key)
  then have "sorted_wrt (\<ge>) (rev (map ?k (sort_key ?k (rev (filter (has_value c) rs)))))"
    by (simp add: sorted_wrt_rev)
  then have a: "sorted_wrt (\<ge>) (map ?v ?a)" by (simp add: rev_map k)
  have z: "\<forall>r \<in> set ?b. ?v r = 0" by (simp add: no_value_zero)
  have "sorted_wrt (\<lambda>x y. ?v y \<le> ?v x) ?b"
  proof (rule sorted_wrt_mono_rel [OF _ sorted_wrt_true])
    fix x y assume "x \<in> set ?b" and "y \<in> set ?b"
    with z show "?v y \<le> ?v x" by simp
  qed
  then have b: "sorted_wrt (\<ge>) (map ?v ?b)" by (simp only: sorted_wrt_map)
  have c: "\<forall>x \<in> set (map ?v ?a). \<forall>y \<in> set (map ?v ?b). y \<le> x"
    using assms by (auto simp: no_value_zero)
  from a b c show ?thesis
    unfolding sort_values_desc_def map_append by (simp only: sorted_wrt_append)
qed


lemma sku_rows_dollars:
  "map sales_dollars_ytd (sku_rows ts ti cum rs)
     = map (\<lambda>r. safe_float (get_num r ''sales_dollars_ytd'' (Fin 0))) rs"
  by (induction rs arbitrary: cum) (simp_all add: Let_def)

lemma sku_rows_skus:
  "map sku (sku_rows ts ti cum rs) = map (\<lambda>r. py_str (get_txt r ''WD Style/Color'' TNaN)) rs"
  by (induction rs arbitrary: cum) (simp_all add: Let_def)

lemma length_sku_rows: "length (sku_rows ts ti cum rs) = length rs"
  by (induction rs arbitrary: cum) (simp_all add: Let_def)

lemma sku_rows_Cons:
  "\<exists>k. sku_rows ts ti cum (r # rs)
          = k # sku_rows ts ti (cum + safe_float (get_num r ''sales_dollars_ytd'' (Fin 0))) rs
       \<and> cumulative_sales_pct k
          = py_round 6 (if 0 < ts then (cum + safe_float (get_num r ''sales_dollars_ytd'' (Fin 0))) / ts else 0)"
  by (simp add: Let_def)

lemma sku_rows_cumulative_sorted:
  assumes "0 < ts" and "\<forall>r \<in> set rs. 0 \<le> safe_float (get_num r ''sales_dollars_ytd'' (Fin 0))"
  shows "sorted_wrt (\<le>) (map cumulative_sales_pct (sku_rows ts ti cum rs))
       \<and> (\<forall>k \<in> set (sku_rows ts ti cum rs). py_round 6 (cum / ts) \<le> cumulative_sales_pct k)"
  using assms(2)
proof (induction rs arbitrary: cum)
  case Nil
  then show ?case by simp
next
  case (Cons r rs)
  let ?v = "safe_float (get_num r ''sales_dollars_ytd'' (Fin 0))"
  from Cons.prems have v: "0 \<le> ?v" and rest: "\<forall>r \<in> set rs. 0 \<le> safe_float (get_num r ''sales_dollars_ytd'' (Fin 0))"
    by simp_all
  note ih = Cons.IH [OF rest, of "cum + ?v"]
  from v assms(1) have "cum / ts \<le> (cum + ?v) / ts" by (simp add: divide_right_mono)
  then have h: "py_round 6 (cum / ts) \<le> py_round 6 ((cum + ?v) / ts)" by (rule py_round_mono)
  from sku_rows_Cons [of ts ti cum r rs] assms(1)
  obtain k0 where k0: "sku_rows ts ti cum (r # rs) = k0 # sku_rows ts ti (cum + ?v) rs"
      and c0: "cumulative_sales_pct k0 = py_round 6 ((cum + ?v) / ts)"
    by auto
  from ih h c0 show ?case
    by (simp only: k0 list.map sorted_wrt.simps set_simps ball_simps) (auto intro: order_trans)
qed

lemma sku_rows_last:
  assumes "rs \<noteq> []" and "0 < ts"
  shows "cumulative_sales_pct (last (sku_rows ts ti cum rs))
           = py_round 6 ((cum + sum_list (map (\<lambda>r. safe_float (get_num r ''sales_dollars_ytd'' (Fin 0))) rs)) / ts)"
  using assms(1)
proof (induction rs arbitrary: cum)
  case Nil
  then show ?case by simp
next
  case (Cons r rs)
  let ?v = "safe_float (get_num r ''sales_dollars_ytd'' (Fin 0))"
  show ?case
  proof (cases "rs = []")
    case True
    with assms(2) show ?thesis by (simp add: Let_def)
  next
    case False
    then have "sku_rows ts ti (cum + ?v) rs \<noteq> []"
      using length_sku_rows [of ts ti "cum + ?v" rs] by auto
    then have "last (sku_rows ts ti cum (r # rs)) = last (sku_rows ts ti (cum + ?v) rs)"
      by (simp add: Let_def)
    with Cons.IH [OF False, of "cum + ?v"] show ?thesis by (simp add: add.assoc)
  qed
qed


lemma build_sku_records_pareto:
  assumes "0 < col_sum ''sales_dollars_ytd'' sku_df"
      and "\<forall>r \<in> set sku_df. 0 \<le> safe_float (get_num r ''sales_dollars_ytd'' (Fin 0))"
  shows "sorted_wrt (\<ge>) (map sales_dollars_ytd (build_sku_records sku_df))"
    and "sorted_wrt (\<le>) (map cumulative_sales_pct (build_sku_records sku_df))"
    and "cumulative_sales_pct (last (build_sku_records sku_df)) = 1"
proof -
  let ?c = "''sales_dollars_ytd''"
  let ?v = "\<lambda>r. safe_float (get_num r ?c (Fin 0))"
  let ?srt = "sort_values_desc ?c sku_df"
  let ?ts = "col_sum ?c sku_df"
  have ts: "?ts = sum_list (map ?v ?srt)"
    by (simp only: col_sum_def safe_float_get_num sum_list_sort_values_desc)
  from assms(2) have nn: "\<forall>r \<in> set ?srt. 0 \<le> ?v r"
    by (simp only: set_sort_values_desc)
  show "sorted_wrt (\<ge>) (map sales_dollars_ytd (build_sku_records sku_df))"
    unfolding build_sku_records_def sku_rows_dollars
    using assms(2) by (rule sorted_sort_values_desc)
  show "sorted_wrt (\<le>) (map cumulative_sales_pct (build_sku_records sku_df))"
    unfolding build_sku_records_def
    using sku_rows_cumulative_sorted [OF assms(1) nn] by blast
  from assms(1) ts have "?srt \<noteq> []" by auto
  from sku_rows_last [OF this assms(1), of "col_sum ''inventory_dollars_lw'' sku_df" 0]
  have "cumulative_sales_pct (last (build_sku_records sku_df)) = py_round 6 (?ts / ?ts)"
    unfolding build_sku_records_def by (simp only: ts [symmetric] add_0)
  moreover from assms(1) have "?ts / ?ts = 1" by simp
  moreover have "py_round 6 1 = 1" using py_round_int [of 6 1] by simp
  ultimately show "cumulative_sales_pct (last (build_sku_records sku_df)) = 1" by simp
qed

lemma build_sku_master_records:
  assumes "build_sku_master s = Inr s'"
  shows "\<exists>sku_df. sku_master s' = build_sku_records sku_df"
  using assms by (auto simp: build_sku_master_def split: sum.splits)

text \<open>
  C1, as the code has it.  When \<^verbatim>\<open>build_sku_master\<close> returns, the total of the
  year-to-date sales dollars is positive and no SKU has negative year-to-date sales
  dollars, the SKU records stand in descending order of \<^verbatim>\<open>sales_dollars_ytd\<close>, their
  \<^verbatim>\<open>cumulative_sales_pct\<close> never decreases along that order, and it is exactly 1 at the
  last record.  The order among records with equal sales is the one the sort of pandas
  leaves and is not part of the statement.
\<close>

theorem cumulative_share_monotone:
  assumes "build_sku_master s = Inr s'"
      and "0 < sum_list (map sales_dollars_ytd (sku_master s'))"
      and "\<forall>k \<in> set (sku_master s'). 0 \<le> sales_dollars_ytd k"
  shows "sorted_wrt (\<ge>) (map sales_dollars_ytd (sku_master s'))
       \<and> sorted_wrt (\<le>) (map cumulative_sales_pct (sku_master s'))
       \<and> cumulative_sales_pct (last (sku_master s')) = 1"
proof -
  let ?c = "''sales_dollars_ytd''"
  let ?v = "\<lambda>r. safe_float (get_num r ?c (Fin 0))"
  from build_sku_master_records [OF assms(1)]
  obtain sku_df where m: "sku_master s' = build_sku_records sku_df" by blast
  have d: "map sales_dollars_ytd (sku_master s') = map ?v (sort_values_desc ?c sku_df)"
    unfolding m build_sku_records_def by (rule sku_rows_dollars)
  from assms(2) have t: "0 < col_sum ?c sku_df"
    by (simp only: d col_sum_def safe_float_get_num sum_list_sort_values_desc)
  have "set (map sales_dollars_ytd (sku_master s')) = ?v ` set sku_df"
    by (simp only: d set_map set_sort_values_desc)
  then have i: "sales_dollars_ytd ` set (sku_master s') = ?v ` set sku_df"
    by (simp only: set_map)
  have n: "\<forall>r \<in> set sku_df. 0 \<le> ?v r"
  proof
    fix r
    assume "r \<in> set sku_df"
    then have "?v r \<in> ?v ` set sku_df" by (rule imageI)
    then have "?v r \<in> sales_dollars_ytd ` set (sku_master s')" by (simp only: i)
    then obtain k where "k \<in> set (sku_master s')" and "?v r = sales_dollars_ytd k" by blast
    with assms(3) show "0 \<le> ?v r" by simp
  qed
  from build_sku_records_pareto [OF t n] show ?thesis by (simp only: m)
qed

lemma sample_sku_master:
  "map (\<lambda>k. (sku k, sales_dollars_ytd k, cumulative_sales_pct k))
     (case build_sku_master (sample_state sample_pos (sample_ytd 5 10)) of
        Inl e \<Rightarrow> [] | Inr s' \<Rightarrow> sku_master s')
   = [(''A2'', 10, 666667 / 1000000), (''A1'', 5, 1)]"
  using py_round_int [of 6 1]
  by (simp add: build_sku_master_def build_sku_records_def sort_values_desc_def has_value_def
      build_sku_frame_def sample_state_def sample_pos_def sample_ytd_def sample_ladder_def
      groupby_sum_def group_keys_def List.map_filter_simps key_of_def group_rows_def col_sum_def
      get_num_def get_txt_def merge_left_def ladder_text_cols_def ladder_num_cols_def
      lookup_tier_def Let_def map_add_def restrict_map_def py_round_def round_half_even_def)

theorem cumulative_share_monotone_witness:
  "sorted_wrt (\<le>) (map cumulative_sales_pct
      (sku_master (projr (build_sku_master (sample_state sample_pos (sample_ytd 5 10))))))
   \<and> cumulative_sales_pct (last
      (sku_master (projr (build_sku_master (sample_state sample_pos (sample_ytd 5 10)))))) = 1
   \<and> map sales_dollars_ytd
      (sku_master (projr (build_sku_master (sample_state sample_pos (sample_ytd 5 10))))) = [10, 5]"
proof -
  let ?s = "sample_state sample_pos (sample_ytd 5 10)"
  obtain s' where s': "build_sku_master ?s = Inr s'"
    using sample_sku_master by (cases "build_sku_master ?s") auto
  with sample_sku_master
  have "map (\<lambda>k. (sku k, sales_dollars_ytd k, cumulative_sales_pct k)) (sku_master s')
          = [(''A2'', 10, 666667 / 1000000), (''A1'', 5, 1)]"
    by simp
  then have "map (fst \<circ> snd) (map (\<lambda>k. (sku k, sales_dollars_ytd k, cumulative_sales_pct k)) (sku_master s'))
          = [10, 5]"
    by (simp only: list.map comp_apply fst_conv snd_conv)
  then have d: "map sales_dollars_ytd (sku_master s') = [10, 5]"
    by (simp add: comp_def)
  then have "0 < sum_list (map sales_dollars_ytd (sku_master s'))"
    and "\<forall>x \<in> set (map sales_dollars_ytd (sku_master s')). 0 \<le> x"
    by simp_all
  then have "0 < sum_list (map sales_dollars_ytd (sku_master s'))"
    and "\<forall>k \<in> set (sku_master s'). 0 \<le> sales_dollars_ytd k"
    by simp_all
  from cumulative_share_monotone [OF s' this] d s' show ?thesis by simp
qed

text \<open>
  The claim as stated fails when a SKU has negative year-to-date sales, as returns give:
  with 10 dollars for A1 and -5 for A2 the total is 5, and the cumulative share is 2 at
  the first record and 1 at the second.
\<close>

theorem cumulative_share_monotone_counterexample:
  "map (\<lambda>k. (sku k, sales_dollars_ytd k, cumulative_sales_pct k))
     (case build_sku_master (sample_state sample_pos (sample_ytd 10 (-5))) of
        Inl e \<Rightarrow> [] | Inr s' \<Rightarrow> sku_master s')
   = [(''A1'', 10, 2), (''A2'', -5, 1)]"
  using py_round_int [of 6 2] py_round_int [of 6 1]
  by (simp add: build_sku_master_def build_sku_records_def sort_values_desc_def has_value_def
      build_sku_frame_def sample_state_def sample_pos_def sample_ytd_def sample_ladder_def
      groupby_sum_def group_keys_def List.map_filter_simps key_of_def group_rows_def col_sum_def
      get_num_def get_txt_def merge_left_def ladder_text_cols_def ladder_num_cols_def
      lookup_tier_def Let_def map_add_def restrict_map_def)


end
